theory Spec2Isabelle
  imports Main "HOL-Library.Word"
begin

unbundle bit_operations_syntax

section \<open>Machine types of picotls.h\<close>

text \<open>
  The header works with \<^verbatim>\<open>int\<close> error codes, \<^verbatim>\<open>uint8_t\<close> octets,
  \<^verbatim>\<open>size_t\<close> sizes and data pointers. They are modelled as words of the widths of an
  LP64 target: a 32-bit \<^verbatim>\<open>int\<close>, 64-bit sizes and addresses. The bitwise operators of C
  on a two's complement \<^verbatim>\<open>int\<close> are the bitwise operators on the word.
\<close>

type_synonym c_int = "32 word"
type_synonym uint8_t = "8 word"
type_synonym size_t = "64 word"
type_synonym ptr = "64 word"

definition NULL :: ptr where
  "NULL = 0"

section \<open>Error classes and macros (picotls.h, lines 47-79)\<close>

definition PTLS_ERROR_CLASS_SELF_ALERT :: c_int where
  "PTLS_ERROR_CLASS_SELF_ALERT = 0"

definition PTLS_ERROR_CLASS_PEER_ALERT :: c_int where
  "PTLS_ERROR_CLASS_PEER_ALERT = 0x100"

definition PTLS_ERROR_CLASS_INTERNAL :: c_int where
  "PTLS_ERROR_CLASS_INTERNAL = 0x200"

text \<open>\<^verbatim>\<open>#define PTLS_ERROR_GET_CLASS(e) ((e) & ~0xff)\<close>\<close>

definition PTLS_ERROR_GET_CLASS :: "c_int \<Rightarrow> c_int" where
  "PTLS_ERROR_GET_CLASS e = e AND NOT 0xff"

text \<open>\<^verbatim>\<open>#define PTLS_ALERT_TO_SELF_ERROR(e) ((e) + PTLS_ERROR_CLASS_SELF_ALERT)\<close>\<close>

definition PTLS_ALERT_TO_SELF_ERROR :: "c_int \<Rightarrow> c_int" where
  "PTLS_ALERT_TO_SELF_ERROR e = e + PTLS_ERROR_CLASS_SELF_ALERT"

text \<open>\<^verbatim>\<open>#define PTLS_ALERT_TO_PEER_ERROR(e) ((e) + PTLS_ERROR_CLASS_PEER_ALERT)\<close>\<close>

definition PTLS_ALERT_TO_PEER_ERROR :: "c_int \<Rightarrow> c_int" where
  "PTLS_ALERT_TO_PEER_ERROR e = e + PTLS_ERROR_CLASS_PEER_ALERT"

text \<open>\<^verbatim>\<open>#define PTLS_ERROR_TO_ALERT(e) ((e)&0xff)\<close>\<close>

definition PTLS_ERROR_TO_ALERT :: "c_int \<Rightarrow> c_int" where
  "PTLS_ERROR_TO_ALERT e = e AND 0xff"

subsection \<open>Alerts\<close>

definition PTLS_ALERT_CLOSE_NOTIFY :: c_int where
  "PTLS_ALERT_CLOSE_NOTIFY = 0"

definition PTLS_ALERT_END_OF_EARLY_DATA :: c_int where
  "PTLS_ALERT_END_OF_EARLY_DATA = 1"

definition PTLS_ALERT_UNEXPECTED_MESSAGE :: c_int where
  "PTLS_ALERT_UNEXPECTED_MESSAGE = 10"

definition PTLS_ALERT_BAD_RECORD_MAC :: c_int where
  "PTLS_ALERT_BAD_RECORD_MAC = 20"

definition PTLS_ALERT_HANDSHAKE_FAILURE :: c_int where
  "PTLS_ALERT_HANDSHAKE_FAILURE = 40"

definition PTLS_ALERT_BAD_CERTIFICATE :: c_int where
  "PTLS_ALERT_BAD_CERTIFICATE = 42"

definition PTLS_ALERT_CERTIFICATE_REVOKED :: c_int where
  "PTLS_ALERT_CERTIFICATE_REVOKED = 44"

definition PTLS_ALERT_CERTIFICATE_EXPIRED :: c_int where
  "PTLS_ALERT_CERTIFICATE_EXPIRED = 45"

definition PTLS_ALERT_CERTIFICATE_UNKNOWN :: c_int where
  "PTLS_ALERT_CERTIFICATE_UNKNOWN = 46"

definition PTLS_ALERT_ILLEGAL_PARAMETER :: c_int where
  "PTLS_ALERT_ILLEGAL_PARAMETER = 47"

definition PTLS_ALERT_DECODE_ERROR :: c_int where
  "PTLS_ALERT_DECODE_ERROR = 50"

definition PTLS_ALERT_DECRYPT_ERROR :: c_int where
  "PTLS_ALERT_DECRYPT_ERROR = 51"

definition PTLS_ALERT_INTERNAL_ERROR :: c_int where
  "PTLS_ALERT_INTERNAL_ERROR = 80"

definition PTLS_ALERT_USER_CANCELED :: c_int where
  "PTLS_ALERT_USER_CANCELED = 90"

definition PTLS_ALERT_MISSING_EXTENSION :: c_int where
  "PTLS_ALERT_MISSING_EXTENSION = 109"

definition PTLS_ALERT_UNRECOGNIZED_NAME :: c_int where
  "PTLS_ALERT_UNRECOGNIZED_NAME = 112"

subsection \<open>Internal errors\<close>

definition PTLS_ERROR_NO_MEMORY :: c_int where
  "PTLS_ERROR_NO_MEMORY = PTLS_ERROR_CLASS_INTERNAL + 1"

definition PTLS_ERROR_HANDSHAKE_IN_PROGRESS :: c_int where
  "PTLS_ERROR_HANDSHAKE_IN_PROGRESS = PTLS_ERROR_CLASS_INTERNAL + 2"

definition PTLS_ERROR_LIBRARY :: c_int where
  "PTLS_ERROR_LIBRARY = PTLS_ERROR_CLASS_INTERNAL + 3"

definition PTLS_ERROR_INCOMPATIBLE_KEY :: c_int where
  "PTLS_ERROR_INCOMPATIBLE_KEY = PTLS_ERROR_CLASS_INTERNAL + 4"

text \<open>The four internal errors the header defines, in its order.\<close>

definition internal_errors :: "c_int list" where
  "internal_errors =
     [PTLS_ERROR_NO_MEMORY, PTLS_ERROR_HANDSHAKE_IN_PROGRESS,
      PTLS_ERROR_LIBRARY, PTLS_ERROR_INCOMPATIBLE_KEY]"

section \<open>The output buffer (picotls.h, lines 91-99 and 364-377)\<close>

text \<open>
  \<^verbatim>\<open>typedef struct st_ptls_buffer_t { uint8_t *base; size_t capacity; size_t off;
  int is_allocated; } ptls_buffer_t;\<close>
\<close>

record ptls_buffer_t =
  base :: ptr
  capacity :: size_t
  off :: size_t
  is_allocated :: c_int

text \<open>
  \<^verbatim>\<open>ptls_buffer_init\<close>: the \<^verbatim>\<open>assert(smallbuf != NULL)\<close> comes first; a failed
  assertion aborts the program, which is the result \<open>None\<close>. Otherwise the four fields
  are assigned, in the order of the source, and the buffer is returned.
\<close>

definition ptls_buffer_init :: "ptls_buffer_t \<Rightarrow> ptr \<Rightarrow> size_t \<Rightarrow> ptls_buffer_t option" where
  "ptls_buffer_init buf smallbuf smallbuf_size =
     (if smallbuf = NULL then None
      else Some (buf\<lparr>base := smallbuf, off := 0, capacity := smallbuf_size, is_allocated := 0\<rparr>))"

text \<open>The invariant of the buffer that the specification names: the offset never passes the capacity.\<close>

definition buffer_invariant :: "ptls_buffer_t \<Rightarrow> bool" where
  "buffer_invariant buf = (off buf \<le> capacity buf)"

section \<open>Memory and the disposal of a buffer\<close>

type_synonym bytes = "uint8_t list"

text \<open>
  The memory regions that exist, by the address they start at, each with its contents: the
  regions of the caller (a fixed small buffer among them) and the regions the allocator
  handed out. \<^verbatim>\<open>free(p)\<close> ends the region at \<open>p\<close>.
\<close>

type_synonym memory = "ptr \<Rightarrow> bytes option"

definition c_free :: "memory \<Rightarrow> ptr \<Rightarrow> memory" where
  "c_free m p = m(p := None)"

text \<open>
  Modelled from the spec: the body of \<^verbatim>\<open>ptls_buffer__release_memory\<close>, which the header
  only declares (line 282, ``internal''). The specification: ``disposal releases the heap
  region only if one was allocated, never the caller's fixed region'' and ``\<^verbatim>\<open>dispose\<close>
  releases a heap-owned region (no-op for the fixed-region case)''; the header's comment on
  \<^verbatim>\<open>ptls_buffer_dispose\<close>: ``freeing resources allocated by the buffer itself (if any)''.
  The field \<^verbatim>\<open>is_allocated\<close> records that the buffer allocated its region.
\<close>

definition ptls_buffer__release_memory :: "ptls_buffer_t \<Rightarrow> memory \<Rightarrow> ptls_buffer_t \<times> memory" where
  "ptls_buffer__release_memory buf m =
     (if is_allocated buf \<noteq> 0 then (buf, c_free m (base buf)) else (buf, m))"

text \<open>
  \<^verbatim>\<open>ptls_buffer_dispose\<close> (lines 373-377): the call of \<^verbatim>\<open>ptls_buffer__release_memory\<close>,
  then \<^verbatim>\<open>*buf = (ptls_buffer_t){NULL}\<close>, a compound literal whose first member is
  \<^verbatim>\<open>NULL\<close> and whose other members are zero, assigned to the whole structure.
\<close>

definition ptls_buffer_dispose :: "ptls_buffer_t \<Rightarrow> memory \<Rightarrow> ptls_buffer_t \<times> memory" where
  "ptls_buffer_dispose buf m =
     (case ptls_buffer__release_memory buf m of
        (buf1, m1) \<Rightarrow> (\<lparr>base = NULL, capacity = 0, off = 0, is_allocated = 0\<rparr>, m1))"

section \<open>Concrete values the theorems are run on\<close>

text \<open>A memory with a region of the caller at 4096 and an allocated region at 8192.\<close>

definition example_memory :: memory where
  "example_memory = (\<lambda>p. None)(4096 := Some [1, 2], 8192 := Some [3])"

definition heap_buffer :: ptls_buffer_t where
  "heap_buffer = \<lparr>base = 8192, capacity = 1024, off = 1, is_allocated = 1\<rparr>"

definition fixed_buffer :: ptls_buffer_t where
  "fixed_buffer = \<lparr>base = 4096, capacity = 2, off = 2, is_allocated = 0\<rparr>"

section \<open>Facts about the bits of the class constants\<close>

lemma c_0xff_is_mask: "(0xff::c_int) = mask 8"
  by (simp add: mask_eq_exp_minus_1)

lemma bit_0xff: "bit (0xff::c_int) n \<longleftrightarrow> n < 8"
proof -
  have "bit (mask 8 :: c_int) n \<longleftrightarrow> n < 8"
    by (simp only: bit_mask_iff possible_bit_word) auto
  then show ?thesis by (simp only: c_0xff_is_mask)
qed

lemma bit_0x100: "bit (0x100::c_int) n \<longleftrightarrow> n = 8"
proof -
  have e: "(0x100::c_int) = 2 ^ 8" by simp
  have "bit (2 ^ 8 :: c_int) n \<longleftrightarrow> n = 8"
    by (simp only: bit_exp_iff possible_bit_word) auto
  then show ?thesis by (simp only: e)
qed

lemma bit_0x200: "bit (0x200::c_int) n \<longleftrightarrow> n = 9"
proof -
  have e: "(0x200::c_int) = 2 ^ 9" by simp
  have "bit (2 ^ 9 :: c_int) n \<longleftrightarrow> n = 9"
    by (simp only: bit_exp_iff possible_bit_word) auto
  then show ?thesis by (simp only: e)
qed

lemma octet_and_0xff:
  fixes a :: c_int
  assumes "a \<le> 255"
  shows "a AND 0xff = a"
proof -
  from assms have "a < 2 ^ 8" by (simp add: word_less_nat_alt word_le_nat_alt)
  then have "a AND mask 8 = a" by (rule less_mask_eq)
  then show ?thesis by (simp only: c_0xff_is_mask)
qed

lemma octet_high_bits:
  fixes a :: c_int
  assumes "a \<le> 255" and "bit a n"
  shows "n < 8"
proof -
  have "bit (a AND 0xff) n" using octet_and_0xff [OF assms(1)] assms(2) by simp
  then show ?thesis by (simp only: bit_and_iff bit_0xff)
qed

lemma octet_class_zero:
  fixes a :: c_int
  assumes "a \<le> 255"
  shows "a AND NOT 0xff = 0"
proof (rule bit_word_eqI)
  fix n
  have "\<not> bit (a AND NOT 0xff) n"
    using octet_high_bits [OF assms, of n] by (auto simp only: bit_and_iff bit_not_iff bit_0xff)
  then show "bit (a AND NOT 0xff) n \<longleftrightarrow> bit (0::c_int) n" by simp
qed

lemma octet_plus_0x100:
  fixes a :: c_int
  assumes "a \<le> 255"
  shows "a + 0x100 = a OR 0x100"
  by (rule disjunctive_add) (use assms in \<open>auto simp only: bit_0x100 dest: octet_high_bits\<close>)

lemma octet_plus_0x200:
  fixes a :: c_int
  assumes "a \<le> 255"
  shows "a + 0x200 = a OR 0x200"
  by (rule disjunctive_add) (use assms in \<open>auto simp only: bit_0x200 dest: octet_high_bits\<close>)

lemma peer_class:
  fixes a :: c_int
  assumes "a \<le> 255"
  shows "(a + 0x100) AND NOT 0xff = 0x100"
  by (simp only: octet_plus_0x100 [OF assms], rule bit_word_eqI)
    (use assms in \<open>auto simp only: bit_and_iff bit_or_iff bit_not_iff bit_0xff bit_0x100
       possible_bit_word dest: octet_high_bits\<close>)

lemma peer_alert:
  fixes a :: c_int
  assumes "a \<le> 255"
  shows "(a + 0x100) AND 0xff = a"
  by (simp only: octet_plus_0x100 [OF assms], rule bit_word_eqI)
    (use assms in \<open>auto simp only: bit_and_iff bit_or_iff bit_not_iff bit_0xff bit_0x100
       possible_bit_word dest: octet_high_bits\<close>)

lemma internal_class:
  fixes a :: c_int
  assumes "a \<le> 255"
  shows "(0x200 + a) AND NOT 0xff = 0x200"
  by (simp only: add.commute [of "0x200" a] octet_plus_0x200 [OF assms], rule bit_word_eqI)
    (use assms in \<open>auto simp only: bit_and_iff bit_or_iff bit_not_iff bit_0xff bit_0x200
       possible_bit_word dest: octet_high_bits\<close>)

section \<open>The error classes\<close>

lemma class_constants_distinct:
  "PTLS_ERROR_CLASS_SELF_ALERT \<noteq> PTLS_ERROR_CLASS_PEER_ALERT"
  "PTLS_ERROR_CLASS_SELF_ALERT \<noteq> PTLS_ERROR_CLASS_INTERNAL"
  "PTLS_ERROR_CLASS_PEER_ALERT \<noteq> PTLS_ERROR_CLASS_INTERNAL"
  by (simp_all add: PTLS_ERROR_CLASS_SELF_ALERT_def PTLS_ERROR_CLASS_PEER_ALERT_def
      PTLS_ERROR_CLASS_INTERNAL_def)

lemma self_error_class:
  "a \<le> 255 \<Longrightarrow> PTLS_ERROR_GET_CLASS (PTLS_ALERT_TO_SELF_ERROR a) = PTLS_ERROR_CLASS_SELF_ALERT"
  unfolding PTLS_ERROR_GET_CLASS_def PTLS_ALERT_TO_SELF_ERROR_def PTLS_ERROR_CLASS_SELF_ALERT_def
  by (simp only: add_0_right octet_class_zero)

lemma peer_error_class:
  "a \<le> 255 \<Longrightarrow> PTLS_ERROR_GET_CLASS (PTLS_ALERT_TO_PEER_ERROR a) = PTLS_ERROR_CLASS_PEER_ALERT"
  unfolding PTLS_ERROR_GET_CLASS_def PTLS_ALERT_TO_PEER_ERROR_def PTLS_ERROR_CLASS_PEER_ALERT_def
  by (simp only: peer_class)

lemma internal_error_class:
  "i \<le> 255 \<Longrightarrow> PTLS_ERROR_GET_CLASS (PTLS_ERROR_CLASS_INTERNAL + i) = PTLS_ERROR_CLASS_INTERNAL"
  unfolding PTLS_ERROR_GET_CLASS_def PTLS_ERROR_CLASS_INTERNAL_def
  by (simp only: internal_class)

lemma self_error_to_alert:
  "a \<le> 255 \<Longrightarrow> PTLS_ERROR_TO_ALERT (PTLS_ALERT_TO_SELF_ERROR a) = a"
  unfolding PTLS_ERROR_TO_ALERT_def PTLS_ALERT_TO_SELF_ERROR_def PTLS_ERROR_CLASS_SELF_ALERT_def
  by (simp only: add_0_right octet_and_0xff)

lemma peer_error_to_alert:
  "a \<le> 255 \<Longrightarrow> PTLS_ERROR_TO_ALERT (PTLS_ALERT_TO_PEER_ERROR a) = a"
  unfolding PTLS_ERROR_TO_ALERT_def PTLS_ALERT_TO_PEER_ERROR_def PTLS_ERROR_CLASS_PEER_ALERT_def
  by (simp only: peer_alert)

lemma defined_internal_errors_class:
  "e \<in> set internal_errors \<Longrightarrow> PTLS_ERROR_GET_CLASS e = PTLS_ERROR_CLASS_INTERNAL"
proof -
  assume "e \<in> set internal_errors"
  then obtain i where "e = PTLS_ERROR_CLASS_INTERNAL + i" and "i \<le> 255"
    by (auto simp add: internal_errors_def PTLS_ERROR_NO_MEMORY_def
        PTLS_ERROR_HANDSHAKE_IN_PROGRESS_def PTLS_ERROR_LIBRARY_def
        PTLS_ERROR_INCOMPATIBLE_KEY_def)
  then show ?thesis by (simp add: internal_error_class)
qed

text \<open>
  C4. For every alert code \<open>a\<close> in 0..255 the class of the self encoding is
  \<^verbatim>\<open>PTLS_ERROR_CLASS_SELF_ALERT\<close>, the class of the peer encoding is
  \<^verbatim>\<open>PTLS_ERROR_CLASS_PEER_ALERT\<close>, and \<^verbatim>\<open>PTLS_ERROR_TO_ALERT\<close> gives \<open>a\<close> back from
  either encoding. The three numeric ranges (self alerts, peer alerts, internal errors
  \<^verbatim>\<open>PTLS_ERROR_CLASS_INTERNAL + i\<close>) are pairwise disjoint, the three class values differ,
  and each of the four internal errors of the header has the internal class: the class mask
  alone tells the three classes apart.
\<close>

theorem error_classes_partition:
  fixes a b i :: c_int
  assumes "a \<le> 255" and "b \<le> 255" and "i \<le> 255"
  shows "PTLS_ERROR_GET_CLASS (PTLS_ALERT_TO_SELF_ERROR a) = PTLS_ERROR_CLASS_SELF_ALERT
       \<and> PTLS_ERROR_GET_CLASS (PTLS_ALERT_TO_PEER_ERROR a) = PTLS_ERROR_CLASS_PEER_ALERT
       \<and> PTLS_ERROR_TO_ALERT (PTLS_ALERT_TO_SELF_ERROR a) = a
       \<and> PTLS_ERROR_TO_ALERT (PTLS_ALERT_TO_PEER_ERROR a) = a
       \<and> PTLS_ERROR_GET_CLASS (PTLS_ERROR_CLASS_INTERNAL + i) = PTLS_ERROR_CLASS_INTERNAL
       \<and> PTLS_ALERT_TO_SELF_ERROR a \<noteq> PTLS_ALERT_TO_PEER_ERROR b
       \<and> PTLS_ALERT_TO_SELF_ERROR a \<noteq> PTLS_ERROR_CLASS_INTERNAL + i
       \<and> PTLS_ALERT_TO_PEER_ERROR b \<noteq> PTLS_ERROR_CLASS_INTERNAL + i
       \<and> distinct [PTLS_ERROR_CLASS_SELF_ALERT, PTLS_ERROR_CLASS_PEER_ALERT,
            PTLS_ERROR_CLASS_INTERNAL]
       \<and> (\<forall>e \<in> set internal_errors. PTLS_ERROR_GET_CLASS e = PTLS_ERROR_CLASS_INTERNAL)"
proof -
  have sp: "PTLS_ALERT_TO_SELF_ERROR a \<noteq> PTLS_ALERT_TO_PEER_ERROR b"
  proof
    assume "PTLS_ALERT_TO_SELF_ERROR a = PTLS_ALERT_TO_PEER_ERROR b"
    then have "PTLS_ERROR_GET_CLASS (PTLS_ALERT_TO_SELF_ERROR a)
        = PTLS_ERROR_GET_CLASS (PTLS_ALERT_TO_PEER_ERROR b)" by simp
    then show False
      using assms class_constants_distinct by (simp add: self_error_class peer_error_class)
  qed
  have si: "PTLS_ALERT_TO_SELF_ERROR a \<noteq> PTLS_ERROR_CLASS_INTERNAL + i"
  proof
    assume "PTLS_ALERT_TO_SELF_ERROR a = PTLS_ERROR_CLASS_INTERNAL + i"
    then have "PTLS_ERROR_GET_CLASS (PTLS_ALERT_TO_SELF_ERROR a)
        = PTLS_ERROR_GET_CLASS (PTLS_ERROR_CLASS_INTERNAL + i)" by simp
    then show False
      using assms class_constants_distinct by (simp add: self_error_class internal_error_class)
  qed
  have pi: "PTLS_ALERT_TO_PEER_ERROR b \<noteq> PTLS_ERROR_CLASS_INTERNAL + i"
  proof
    assume "PTLS_ALERT_TO_PEER_ERROR b = PTLS_ERROR_CLASS_INTERNAL + i"
    then have "PTLS_ERROR_GET_CLASS (PTLS_ALERT_TO_PEER_ERROR b)
        = PTLS_ERROR_GET_CLASS (PTLS_ERROR_CLASS_INTERNAL + i)" by simp
    then show False
      using assms class_constants_distinct by (simp add: peer_error_class internal_error_class)
  qed
  show ?thesis
    using assms sp si pi class_constants_distinct
    by (simp add: self_error_class peer_error_class internal_error_class self_error_to_alert
        peer_error_to_alert defined_internal_errors_class)
qed

text \<open>
  The theorem at the handshake-failure alert (40) and the library error
  (\<^verbatim>\<open>PTLS_ERROR_CLASS_INTERNAL + 3\<close>).
\<close>

theorem error_classes_partition_witness:
  "PTLS_ERROR_GET_CLASS (PTLS_ALERT_TO_SELF_ERROR 40) = 0
   \<and> PTLS_ERROR_GET_CLASS (PTLS_ALERT_TO_PEER_ERROR 40) = 0x100
   \<and> PTLS_ERROR_TO_ALERT (PTLS_ALERT_TO_SELF_ERROR 40) = 40
   \<and> PTLS_ERROR_TO_ALERT (PTLS_ALERT_TO_PEER_ERROR 40) = 40
   \<and> PTLS_ERROR_GET_CLASS PTLS_ERROR_LIBRARY = 0x200
   \<and> PTLS_ALERT_TO_SELF_ERROR 40 \<noteq> PTLS_ALERT_TO_PEER_ERROR 40
   \<and> PTLS_ALERT_TO_SELF_ERROR 40 \<noteq> PTLS_ERROR_LIBRARY
   \<and> PTLS_ALERT_TO_PEER_ERROR 40 \<noteq> PTLS_ERROR_LIBRARY"
proof -
  have h40: "(40::c_int) \<le> 255" and h3: "(3::c_int) \<le> 255" by simp_all
  show ?thesis
    using error_classes_partition [OF h40 h40 h3]
    by (simp add: PTLS_ERROR_LIBRARY_def PTLS_ERROR_CLASS_SELF_ALERT_def
        PTLS_ERROR_CLASS_PEER_ALERT_def PTLS_ERROR_CLASS_INTERNAL_def)
qed

section \<open>Initialising a buffer\<close>

text \<open>
  C5. For a region pointer \<open>smallbuf\<close> that is not null and any size \<open>n\<close>,
  \<^verbatim>\<open>ptls_buffer_init(buf, smallbuf, n)\<close> returns with \<open>base = smallbuf\<close>, \<open>off = 0\<close>,
  \<open>capacity = n\<close> and \<open>is_allocated = 0\<close>, whatever the buffer held before, and the
  invariant \<open>off \<le> capacity\<close> holds; for a null \<open>smallbuf\<close> the assertion fails and the
  function does not return a buffer.
\<close>

theorem ptls_buffer_init_establishes:
  "(smallbuf \<noteq> NULL \<longrightarrow>
      (\<exists>b. ptls_buffer_init buf smallbuf n = Some b
         \<and> base b = smallbuf \<and> off b = 0 \<and> capacity b = n \<and> is_allocated b = 0
         \<and> buffer_invariant b))
   \<and> (smallbuf = NULL \<longrightarrow> ptls_buffer_init buf smallbuf n = None)"
  by (simp add: ptls_buffer_init_def buffer_invariant_def)

text \<open>
  The theorem on a buffer that held a heap region before, a region at address 4096 and
  the size 16; and on the null pointer.
\<close>

theorem ptls_buffer_init_establishes_witness:
  "(4096 :: ptr) \<noteq> NULL
   \<and> (\<exists>b. ptls_buffer_init \<lparr>base = 512, capacity = 7, off = 9, is_allocated = 1\<rparr> 4096 16 = Some b
         \<and> base b = 4096 \<and> off b = 0 \<and> capacity b = 16 \<and> is_allocated b = 0
         \<and> buffer_invariant b)
   \<and> ptls_buffer_init \<lparr>base = 512, capacity = 7, off = 9, is_allocated = 1\<rparr> NULL 16 = None"
proof -
  have nn: "(4096 :: ptr) \<noteq> NULL" by (simp add: NULL_def)
  show ?thesis
    using nn
      ptls_buffer_init_establishes
        [of 4096 "\<lparr>base = 512, capacity = 7, off = 9, is_allocated = 1\<rparr>" 16]
      ptls_buffer_init_establishes
        [of NULL "\<lparr>base = 512, capacity = 7, off = 9, is_allocated = 1\<rparr>" 16]
    by simp
qed

section \<open>Disposing of a buffer\<close>

text \<open>
  C7. \<^verbatim>\<open>ptls_buffer_dispose\<close> frees a region only when \<^verbatim>\<open>is_allocated\<close> is set, and
  then the region at \<open>base\<close> and no other: with \<^verbatim>\<open>is_allocated = 0\<close> (the fixed region
  of the caller) the regions that exist are the same after the call as before, and any
  region that existed before and does not exist after is the allocated region of the
  buffer. After the call every field is zero or \<^verbatim>\<open>NULL\<close>, the invariant
  \<open>off \<le> capacity\<close> holds, and the buffer can be disposed of again without any effect.
\<close>

theorem ptls_buffer_dispose_releases_and_resets:
  assumes "ptls_buffer_dispose buf m = (buf', m')"
  shows "base buf' = NULL \<and> capacity buf' = 0 \<and> off buf' = 0 \<and> is_allocated buf' = 0
       \<and> buffer_invariant buf'
       \<and> (is_allocated buf = 0 \<longrightarrow> dom m' = dom m)
       \<and> (is_allocated buf \<noteq> 0 \<longrightarrow> dom m' = dom m - {base buf})
       \<and> (\<forall>p. p \<in> dom m \<and> p \<notin> dom m' \<longrightarrow> is_allocated buf \<noteq> 0 \<and> p = base buf)
       \<and> ptls_buffer_dispose buf' m' = (buf', m')"
proof -
  have z: "buf' = \<lparr>base = NULL, capacity = 0, off = 0, is_allocated = 0\<rparr>"
    and m': "m' = (if is_allocated buf \<noteq> 0 then c_free m (base buf) else m)"
    using assms
    by (simp_all add: ptls_buffer_dispose_def ptls_buffer__release_memory_def split: if_splits)
  have d: "dom (c_free m (base buf)) = dom m - {base buf}"
    by (auto simp add: c_free_def)
  have again: "ptls_buffer_dispose buf' m' = (buf', m')"
    by (simp add: z ptls_buffer_dispose_def ptls_buffer__release_memory_def)
  have inv: "buffer_invariant buf'" by (simp add: z buffer_invariant_def)
  have fx: "is_allocated buf = 0 \<longrightarrow> dom m' = dom m" by (simp add: m')
  have hp: "is_allocated buf \<noteq> 0 \<longrightarrow> dom m' = dom m - {base buf}" by (simp add: m' d)
  have only: "\<forall>p. p \<in> dom m \<and> p \<notin> dom m' \<longrightarrow> is_allocated buf \<noteq> 0 \<and> p = base buf"
    using fx hp by blast
  have fields: "base buf' = NULL" "capacity buf' = 0" "off buf' = 0" "is_allocated buf' = 0"
    by (simp_all add: z)
  show ?thesis using fields inv fx hp only again by blast
qed

text \<open>
  The theorem on a buffer that owns the allocated region at 8192, which is freed while the
  region of the caller at 4096 stays, and on a buffer bound to the region of the caller,
  which frees nothing.
\<close>

theorem ptls_buffer_dispose_releases_and_resets_witness:
  "fst (ptls_buffer_dispose heap_buffer example_memory)
     = \<lparr>base = NULL, capacity = 0, off = 0, is_allocated = 0\<rparr>
   \<and> dom (snd (ptls_buffer_dispose heap_buffer example_memory)) = {4096}
   \<and> fst (ptls_buffer_dispose fixed_buffer example_memory)
     = \<lparr>base = NULL, capacity = 0, off = 0, is_allocated = 0\<rparr>
   \<and> dom (snd (ptls_buffer_dispose fixed_buffer example_memory)) = {4096, 8192}"
proof -
  define rh where "rh = ptls_buffer_dispose heap_buffer example_memory"
  define rf where "rf = ptls_buffer_dispose fixed_buffer example_memory"
  have eh: "ptls_buffer_dispose heap_buffer example_memory = (fst rh, snd rh)"
    by (simp add: rh_def)
  have ef: "ptls_buffer_dispose fixed_buffer example_memory = (fst rf, snd rf)"
    by (simp add: rf_def)
  note th = ptls_buffer_dispose_releases_and_resets [OF eh]
  note tf = ptls_buffer_dispose_releases_and_resets [OF ef]
  have dm: "dom example_memory = {4096, 8192}"
    by (auto simp add: example_memory_def split: if_splits)
  have ah: "is_allocated heap_buffer \<noteq> 0" and bh: "base heap_buffer = 8192"
    and af: "is_allocated fixed_buffer = 0"
    by (simp_all add: heap_buffer_def fixed_buffer_def)
  have h1: "fst rh = \<lparr>base = NULL, capacity = 0, off = 0, is_allocated = 0\<rparr>"
    using th by (intro ptls_buffer_t.equality) simp_all
  have f1: "fst rf = \<lparr>base = NULL, capacity = 0, off = 0, is_allocated = 0\<rparr>"
    using tf by (intro ptls_buffer_t.equality) simp_all
  have "dom (snd rh) = dom example_memory - {base heap_buffer}"
    using th ah by blast
  moreover have "{4096, 8192} - {8192} = {4096 :: ptr}"
    by auto
  ultimately have h2: "dom (snd rh) = {4096}"
    by (simp only: dm bh)
  have "dom (snd rf) = dom example_memory"
    using tf af by blast
  then have f2: "dom (snd rf) = {4096, 8192}"
    by (simp add: dm)
  show ?thesis using h1 h2 f1 f2 by (simp add: rh_def rf_def)
qed

end
